theory Spec2Isabelle
  imports Complex_Main "HOL-Library.Code_Target_Numeral"
begin

section \<open>Data model\<close>

text \<open>
  The program is a single script, \<^verbatim>\<open>app.py\<close>. Its numbers are Python numbers: the
  sliders for GRE, TOEFL and university rating and the research select box deliver
  integers, the sliders for SOP, LOR and CGPA deliver floats. Integers are modelled as
  \<^typ>\<open>int\<close>, a finite float as the \<^typ>\<open>real\<close> number it denotes. Comparisons of floats
  are comparisons of these numbers. Where the script computes with floats:
  \<^item> the conversion of the integer inputs by \<^verbatim>\<open>np.array\<close> rounds to binary64
    (\<open>float64_of_int\<close> below);
  \<^item> the product \<^verbatim>\<open>prediction[0][0] * 100\<close> is computed in the arithmetic of the model's
    output array, which the model artifact fixes (\<open>entry_times\<close> below);
  \<^item> the radar values are computed here in exact arithmetic.
\<close>

text \<open>
  The status of a prediction. The script keeps three variables, \<^verbatim>\<open>color\<close>,
  \<^verbatim>\<open>status\<close> and \<^verbatim>\<open>emoji\<close>; the status and emoji texts are not ASCII, so a
  constructor stands for each pair:
  \<^item> \<open>VeryHigh\<close> for status \<^verbatim>\<open>Muy Alta\<close>,
  \<^item> \<open>High\<close> for status \<^verbatim>\<open>Alta\<close>,
  \<^item> \<open>Medium\<close> for status \<^verbatim>\<open>Media\<close>,
  \<^item> \<open>Low\<close> for status \<^verbatim>\<open>Baja\<close>.
\<close>

datatype category = VeryHigh | High | Medium | Low

text \<open>
  The seven advisory texts of \<^verbatim>\<open>generate_recommendations\<close>, pairwise different
  strings in the source, in the order of the source:
  \<^item> \<open>ImproveCGPA\<close>: \<^verbatim>\<open>Enfocate en mejorar tu CGPA\<close>,
  \<^item> \<open>PrepareGRE\<close>: \<^verbatim>\<open>Preparate mas para el GRE\<close>,
  \<^item> \<open>ImproveTOEFL\<close>: \<^verbatim>\<open>Mejora tu TOEFL\<close>,
  \<^item> \<open>PolishSOP\<close>: \<^verbatim>\<open>Perfecciona tu SOP\<close>,
  \<^item> \<open>StrengthenLOR\<close>: \<^verbatim>\<open>Fortalece tus cartas de recomendacion\<close>,
  \<^item> \<open>SeekResearch\<close>: \<^verbatim>\<open>Busca experiencia en investigacion\<close>,
  \<^item> \<open>BackupUniversities\<close>: \<^verbatim>\<open>Considera universidades de respaldo\<close>.
\<close>

datatype advisory =
  ImproveCGPA | PrepareGRE | ImproveTOEFL | PolishSOP | StrengthenLOR
  | SeekResearch | BackupUniversities

section \<open>Status and colour of a probability\<close>

text \<open>
  The chain of conditionals that follows the prediction in the script
  (\<^verbatim>\<open>if probability >= 80: ... elif probability >= 60: ... elif probability >= 40: ...
  else: ...\<close>), returning the colour and the status it assigns.
\<close>

definition status_color :: "real \<Rightarrow> string \<times> category" where
  "status_color probability =
     (if probability \<ge> 80 then (''#28a745'', VeryHigh)
      else if probability \<ge> 60 then (''#17a2b8'', High)
      else if probability \<ge> 40 then (''#ffc107'', Medium)
      else (''#dc3545'', Low))"

definition classify :: "real \<Rightarrow> category" where
  "classify probability = snd (status_color probability)"

section \<open>Recommendations\<close>

text \<open>
  \<^verbatim>\<open>generate_recommendations\<close>: the list starts empty and each \<^verbatim>\<open>if\<close> appends
  its text at the end. The parameter \<^verbatim>\<open>rating\<close> is accepted and never read.
\<close>

definition append_if :: "bool \<Rightarrow> 'a \<Rightarrow> 'a list \<Rightarrow> 'a list" where
  "append_if guard x recommendations = (if guard then recommendations @ [x] else recommendations)"

definition generate_recommendations ::
  "int \<Rightarrow> int \<Rightarrow> int \<Rightarrow> real \<Rightarrow> real \<Rightarrow> real \<Rightarrow> int \<Rightarrow> real \<Rightarrow> advisory list" where
  "generate_recommendations gre toefl rating sop lor cgpa research probability =
     (let recommendations = [];
          recommendations = append_if (cgpa < 8.0) ImproveCGPA recommendations;
          recommendations = append_if (gre < 320) PrepareGRE recommendations;
          recommendations = append_if (toefl < 100) ImproveTOEFL recommendations;
          recommendations = append_if (sop < 4.0) PolishSOP recommendations;
          recommendations = append_if (lor < 4.0) StrengthenLOR recommendations;
          recommendations = append_if (research = 0) SeekResearch recommendations;
          recommendations = append_if (probability < 60) BackupUniversities recommendations
      in recommendations)"

text \<open>
  The rule table as the specification words it: seven (guard, advisory) pairs in a fixed
  order, each guard evaluated on its own, the advisories of the guards that hold kept in
  the order of the table.
\<close>

definition rule_table ::
  "int \<Rightarrow> int \<Rightarrow> real \<Rightarrow> real \<Rightarrow> real \<Rightarrow> int \<Rightarrow> real \<Rightarrow> (bool \<times> advisory) list" where
  "rule_table gre toefl sop lor cgpa research probability =
     [(cgpa < 8.0, ImproveCGPA),
      (gre < 320, PrepareGRE),
      (toefl < 100, ImproveTOEFL),
      (sop < 4.0, PolishSOP),
      (lor < 4.0, StrengthenLOR),
      (research = 0, SeekResearch),
      (probability < 60, BackupUniversities)]"

definition recommend_spec ::
  "int \<Rightarrow> int \<Rightarrow> real \<Rightarrow> real \<Rightarrow> real \<Rightarrow> int \<Rightarrow> real \<Rightarrow> advisory list" where
  "recommend_spec gre toefl sop lor cgpa research probability =
     map snd (filter fst (rule_table gre toefl sop lor cgpa research probability))"

section \<open>Errors and artifacts\<close>

text \<open>
  Every way the script stops before its end is a value of \<open>error\<close>:
  \<^item> \<open>MissingArtifact name\<close>: \<^verbatim>\<open>os.path.exists\<close> is false for the file \<open>name\<close>;
    \<^verbatim>\<open>load_model\<close> shows its error and instructions and calls \<^verbatim>\<open>st.stop()\<close>;
  \<^item> \<open>ArtifactCorrupt msg\<close>: the \<^verbatim>\<open>except Exception as e\<close> branch of
    \<^verbatim>\<open>load_model\<close>, which shows \<^verbatim>\<open>str(e)\<close> and calls \<^verbatim>\<open>st.stop()\<close>;
  \<^item> \<open>Raised name\<close>: an exception raised inside \<^verbatim>\<open>np.array\<close>, the scaler's
    \<^verbatim>\<open>transform\<close> or the model's \<^verbatim>\<open>predict\<close>; \<^verbatim>\<open>predict_admission\<close> catches
    nothing;
  \<^item> \<open>IndexError\<close>: \<^verbatim>\<open>prediction[0][0]\<close> on an array with no row or no column.
\<close>

datatype error =
  MissingArtifact string | ArtifactCorrupt string | Raised string | IndexError

text \<open>
  The two artifacts are opaque objects read from disk. The script uses one method of
  each, on a two-dimensional array (a list of rows): \<^verbatim>\<open>scaler.transform(data)\<close> and
  \<^verbatim>\<open>model.predict(scaled, verbose=0)\<close>; either may raise. \<open>n_features_in\<close> is the
  number of features the scaler was fitted on; the script never reads it.

  The entries of the array returned by \<^verbatim>\<open>predict\<close> are floating-point scalars of the
  array's type (32 or 64 bits wide, as the model was built), and the script multiplies
  one of them by the integer 100. \<open>entry_times x k\<close> is that product \<^verbatim>\<open>x * k\<close> as the
  scalar type computes it: the exact product rounded to the type.
\<close>

record scaler =
  n_features_in :: nat
  transform :: "real list list \<Rightarrow> error + real list list"

record model =
  predict :: "real list list \<Rightarrow> error + real list list"
  entry_times :: "real \<Rightarrow> int \<Rightarrow> real"

section \<open>Prediction\<close>

text \<open>The number of binary digits of a natural number (\<^verbatim>\<open>int.bit_length\<close>).\<close>

fun bit_length :: "nat \<Rightarrow> nat" where
  "bit_length n = (if n = 0 then 0 else Suc (bit_length (n div 2)))"

declare bit_length.simps [simp del]

text \<open>
  The integer with at most 53 significant binary digits nearest to \<open>n\<close>, the tie going to
  the one whose 53rd digit is even: with \<open>k\<close> the number of digits beyond 53, the low
  \<open>k\<close> digits are dropped and the rest is incremented when the dropped part is more than
  half a unit, or exactly half and the rest is odd.
\<close>

definition nearest_binary64 :: "int \<Rightarrow> int" where
  "nearest_binary64 n =
     (let a = nat \<bar>n\<bar>;
          k = bit_length a - 53;
          q = a div 2 ^ k;
          r = a mod 2 ^ k;
          q' = (if 2 ^ k < 2 * r \<or> (2 * r = 2 ^ k \<and> odd q) then q + 1 else q)
      in sgn n * int (q' * 2 ^ k))"

text \<open>
  The conversion of a Python integer to a binary64 float: the nearest float, or
  \<^verbatim>\<open>OverflowError\<close> when that is beyond the largest one.
\<close>

definition float64_of_int :: "int \<Rightarrow> error + real" where
  "float64_of_int n =
     (let r = nearest_binary64 n in
      if 2 ^ 1024 \<le> \<bar>r\<bar> then Inl (Raised ''OverflowError'') else Inr (real_of_int r))"

text \<open>
  \<^verbatim>\<open>data = np.array([[gre, toefl, rating, sop, lor, cgpa, research]])\<close>: one row. The
  list mixes integers and floats, so the array is of binary64 floats and every integer is
  converted.
\<close>

definition data_array ::
  "int \<Rightarrow> int \<Rightarrow> int \<Rightarrow> real \<Rightarrow> real \<Rightarrow> real \<Rightarrow> int \<Rightarrow> error + real list list" where
  "data_array gre toefl rating sop lor cgpa research =
     (case float64_of_int gre of
        Inl e \<Rightarrow> Inl e
      | Inr g \<Rightarrow>
          (case float64_of_int toefl of
             Inl e \<Rightarrow> Inl e
           | Inr t \<Rightarrow>
               (case float64_of_int rating of
                  Inl e \<Rightarrow> Inl e
                | Inr r \<Rightarrow>
                    (case float64_of_int research of
                       Inl e \<Rightarrow> Inl e
                     | Inr s \<Rightarrow> Inr [[g, t, r, sop, lor, cgpa, s]]))))"

text \<open>\<^verbatim>\<open>prediction[0][0]\<close>; indexing past the end raises.\<close>

fun first_entry :: "real list list \<Rightarrow> error + real" where
  "first_entry [] = Inl IndexError"
| "first_entry ([] # rows) = Inl IndexError"
| "first_entry ((x # row) # rows) = Inr x"

definition predict_admission ::
  "int \<Rightarrow> int \<Rightarrow> int \<Rightarrow> real \<Rightarrow> real \<Rightarrow> real \<Rightarrow> int \<Rightarrow> model \<Rightarrow> scaler \<Rightarrow> error + real" where
  "predict_admission gre toefl rating sop lor cgpa research model scaler =
     (case data_array gre toefl rating sop lor cgpa research of
        Inl e \<Rightarrow> Inl e
      | Inr data \<Rightarrow>
          (case transform scaler data of
             Inl e \<Rightarrow> Inl e
           | Inr scaled \<Rightarrow>
               (case predict model scaled of
                  Inl e \<Rightarrow> Inl e
                | Inr prediction \<Rightarrow>
                    (case first_entry prediction of
                       Inl e \<Rightarrow> Inl e
                     | Inr x \<Rightarrow> Inr (entry_times model x 100)))))"

section \<open>Loading the artifacts\<close>

text \<open>
  What the working directory holds under one of the two file names: nothing, a file that
  the loader rejects with the given exception text, or a file that loads to an object.
\<close>

datatype 'a stored = Absent | Unreadable string | Readable 'a

record files =
  model_file :: "model stored"
  scaler_file :: "scaler stored"

definition model_path :: string where
  "model_path = ''mejor_modelo_admision.h5''"

definition scaler_path :: string where
  "scaler_path = ''scaler_admision.pkl''"

text \<open>\<^verbatim>\<open>os.path.exists\<close>.\<close>

fun exists_file :: "'a stored \<Rightarrow> bool" where
  "exists_file Absent = False"
| "exists_file (Unreadable msg) = True"
| "exists_file (Readable x) = True"

text \<open>
  \<^verbatim>\<open>keras.models.load_model\<close> (with the import and the \<^verbatim>\<open>compile\<close> call) and
  \<^verbatim>\<open>joblib.load\<close>: the object, or the text of the exception.
\<close>

fun read_file :: "'a stored \<Rightarrow> string + 'a" where
  "read_file Absent = Inl ''FileNotFoundError''"
| "read_file (Unreadable msg) = Inl msg"
| "read_file (Readable x) = Inr x"

text \<open>The body of \<^verbatim>\<open>load_model\<close>, without its cache.\<close>

definition load_model :: "files \<Rightarrow> error + (model \<times> scaler)" where
  "load_model fs =
     (if \<not> exists_file (model_file fs) then Inl (MissingArtifact model_path)
      else if \<not> exists_file (scaler_file fs) then Inl (MissingArtifact scaler_path)
      else case read_file (model_file fs) of
             Inl msg \<Rightarrow> Inl (ArtifactCorrupt msg)
           | Inr model \<Rightarrow>
               (case read_file (scaler_file fs) of
                  Inl msg \<Rightarrow> Inl (ArtifactCorrupt msg)
                | Inr scaler \<Rightarrow> Inr (model, scaler)))"

text \<open>
  \<^verbatim>\<open>@st.cache_resource\<close> on a function without arguments: the process keeps at most
  one stored result. A call with a stored result returns it and does not run the body;
  a call without one runs the body, stores what it returns, and stores nothing when the
  body stops or raises.
\<close>

type_synonym cache = "(model \<times> scaler) option"

definition cached_load_model :: "files \<Rightarrow> cache \<Rightarrow> (error + (model \<times> scaler)) \<times> cache" where
  "cached_load_model fs c =
     (case c of
        Some artifacts \<Rightarrow> (Inr artifacts, c)
      | None \<Rightarrow>
          (case load_model fs of
             Inl e \<Rightarrow> (Inl e, None)
           | Inr artifacts \<Rightarrow> (Inr artifacts, Some artifacts)))"

section \<open>The script up to the status\<close>

text \<open>
  One run of the script from \<^verbatim>\<open>model, scaler = load_model()\<close> to the end of the
  status block: the artifacts are fetched through the cache, the widget values go to
  \<^verbatim>\<open>predict_admission\<close>, and the probability gets its colour and status. The widget
  values are the arguments. The result is the probability with its colour and status, or
  the error that stopped the run, and the cache left behind for the next run.
\<close>

definition run_app ::
  "files \<Rightarrow> cache \<Rightarrow> int \<Rightarrow> int \<Rightarrow> int \<Rightarrow> real \<Rightarrow> real \<Rightarrow> real \<Rightarrow> int
     \<Rightarrow> (error + (real \<times> string \<times> category)) \<times> cache" where
  "run_app fs c gre toefl rating sop lor cgpa research =
     (case cached_load_model fs c of
        (Inl e, c') \<Rightarrow> (Inl e, c')
      | (Inr (model, scaler), c') \<Rightarrow>
          (case predict_admission gre toefl rating sop lor cgpa research model scaler of
             Inl e \<Rightarrow> (Inl e, c')
           | Inr probability \<Rightarrow> (Inr (probability, status_color probability), c')))"

section \<open>Radar chart values\<close>

text \<open>
  The list \<^verbatim>\<open>values\<close> of \<^verbatim>\<open>create_radar_chart\<close>; \<^verbatim>\<open>/\<close> is true division. The
  arithmetic is exact.
\<close>

definition radar_values ::
  "int \<Rightarrow> int \<Rightarrow> int \<Rightarrow> real \<Rightarrow> real \<Rightarrow> real \<Rightarrow> int \<Rightarrow> real list" where
  "radar_values gre toefl rating sop lor cgpa research =
     [real_of_int (gre - 260) / real_of_int (340 - 260) * 100,
      (real_of_int toefl / 120) * 100,
      (real_of_int rating / 5) * 100,
      (sop / 5) * 100,
      (lor / 5) * 100,
      (cgpa - 6.8) / (10 - 6.8) * 100,
      real_of_int (research * 100)]"

section \<open>Documented ranges\<close>



text \<open>
  A scaler validates the width of its input when its \<^verbatim>\<open>transform\<close> raises on every row
  whose length is not the number of features it was fitted on.
\<close>

definition validates_width :: "scaler \<Rightarrow> bool" where
  "validates_width sc =
     (\<forall>row. length row \<noteq> n_features_in sc \<longrightarrow> (\<exists>e. transform sc [row] = Inl e))"


section \<open>Sample artifacts\<close>

text \<open>
  Concrete artifacts on which the theorems below are instantiated. \<open>checking_scaler n\<close>
  was fitted on \<open>n\<close> features, rejects an array with a row of another width and divides
  every entry by 100; \<open>dividing_scaler\<close> was fitted on one feature and divides every entry
  of any array by 100, its single scale factor applied to all columns; \<open>probe_scaler d\<close>
  raises on every array and tells in the exception whether the array was \<open>d\<close>;
  \<open>averaging_model\<close> returns the mean of each row; \<open>constant_model r\<close> returns \<open>r\<close>. The
  products of the two models are exact.
\<close>

definition checking_scaler :: "nat \<Rightarrow> scaler" where
  "checking_scaler n =
     \<lparr>n_features_in = n,
      transform = (\<lambda>rows. if list_all (\<lambda>row. length row = n) rows
                           then Inr (map (map (\<lambda>x. x / 100)) rows)
                           else Inl (Raised ''ValueError''))\<rparr>"

definition dividing_scaler :: scaler where
  "dividing_scaler =
     \<lparr>n_features_in = 1, transform = (\<lambda>rows. Inr (map (map (\<lambda>x. x / 100)) rows))\<rparr>"

definition probe_scaler :: "real list list \<Rightarrow> scaler" where
  "probe_scaler d =
     \<lparr>n_features_in = 7,
      transform = (\<lambda>rows. if rows = d then Inl (Raised ''probe hit'')
                           else Inl (Raised ''probe miss''))\<rparr>"

definition averaging_model :: model where
  "averaging_model =
     \<lparr>predict = (\<lambda>rows. Inr (map (\<lambda>row. [sum_list row / real (length row)]) rows)),
      entry_times = (\<lambda>x k. x * real_of_int k)\<rparr>"


section \<open>Theorems\<close>

lemma bit_length_le: "n < 2 ^ m \<Longrightarrow> bit_length n \<le> m"
proof (induction m arbitrary: n)
  case 0
  then have "n = 0" by simp
  then show ?case by (simp add: bit_length.simps)
next
  case (Suc m)
  show ?case
  proof (cases "n = 0")
    case True
    then show ?thesis by (simp add: bit_length.simps)
  next
    case False
    from Suc.prems have "n div 2 < 2 ^ m" by simp
    then have "bit_length (n div 2) \<le> m" by (rule Suc.IH)
    with False show ?thesis by (subst bit_length.simps) simp
  qed
qed

lemma nearest_binary64_exact:
  assumes "\<bar>n\<bar> < 2 ^ 53"
  shows "nearest_binary64 n = n"
proof -
  have "nat \<bar>n\<bar> < 2 ^ 53"
    using assms by (simp add: nat_less_iff)
  then have "bit_length (nat \<bar>n\<bar>) - 53 = 0"
    using bit_length_le [of "nat \<bar>n\<bar>" 53] by simp
  then have "nearest_binary64 n = sgn n * int (nat \<bar>n\<bar>)"
    by (simp add: nearest_binary64_def Let_def)
  also have "\<dots> = n"
    by (simp add: mult_sgn_abs)
  finally show ?thesis .
qed

lemma float64_of_int_exact:
  assumes "\<bar>n\<bar> < 2 ^ 53"
  shows "float64_of_int n = Inr (real_of_int n)"
proof -
  have "(2::int) ^ 53 < 2 ^ 1024"
    by (rule power_strict_increasing) simp_all
  with assms have "\<not> 2 ^ 1024 \<le> \<bar>n\<bar>"
    by linarith
  then show ?thesis
    by (simp add: float64_of_int_def nearest_binary64_exact [OF assms])
qed

lemma nearest_binary64_rounds: "nearest_binary64 9007199254740993 = 9007199254740992"
  by code_simp

lemma float64_of_int_rounds: "float64_of_int 9007199254740993 = Inr 9007199254740992"
proof -
  have "(2::int) ^ 53 < 2 ^ 1024"
    by (rule power_strict_increasing) simp_all
  then have "\<not> (2::int) ^ 1024 \<le> \<bar>9007199254740992\<bar>"
    by simp
  then show ?thesis
    unfolding float64_of_int_def nearest_binary64_rounds Let_def by simp
qed

lemma data_array_exact:
  assumes "\<bar>gre\<bar> < 2 ^ 53" "\<bar>toefl\<bar> < 2 ^ 53" "\<bar>rating\<bar> < 2 ^ 53" "\<bar>research\<bar> < 2 ^ 53"
  shows "data_array gre toefl rating sop lor cgpa research
    = Inr [[real_of_int gre, real_of_int toefl, real_of_int rating, sop, lor, cgpa,
            real_of_int research]]"
  unfolding data_array_def
    float64_of_int_exact [OF assms(1)] float64_of_int_exact [OF assms(2)]
    float64_of_int_exact [OF assms(3)] float64_of_int_exact [OF assms(4)]
  by simp

lemma data_array_sample: "data_array 320 110 3 4 4 8.5 1 = Inr [[320, 110, 3, 4, 4, 8.5, 1]]"
  using data_array_exact [of 320 110 3 1 4 4 "8.5"] by simp

lemma data_array_row:
  assumes "data_array gre toefl rating sop lor cgpa research = Inr data"
  shows "\<exists>row. data = [row] \<and> length row = 7"
  using assms by (auto simp add: data_array_def split: sum.splits)

text \<open>
  C1. Every real percentage gets exactly one category, decided from the top with closed
  lower bounds: at least 80 is VeryHigh, from 60 up to but excluding 80 is High, from 40
  up to but excluding 60 is Medium, below 40 is Low; the boundary values 40, 60 and 80
  fall in the higher band.
\<close>

theorem classify_bands:
  "(classify p = VeryHigh \<longleftrightarrow> 80 \<le> p)
   \<and> (classify p = High \<longleftrightarrow> 60 \<le> p \<and> p < 80)
   \<and> (classify p = Medium \<longleftrightarrow> 40 \<le> p \<and> p < 60)
   \<and> (classify p = Low \<longleftrightarrow> p < 40)
   \<and> classify 40 = Medium \<and> classify 60 = High \<and> classify 80 = VeryHigh"
  by (simp add: classify_def status_color_def)

text \<open>
  C2. For every profile and percentage the recommendation engine returns exactly the
  advisories whose guards hold (cgpa < 8.0, gre < 320, toefl < 100, sop < 4.0, lor < 4.0,
  research = 0, percentage < 60), in that fixed order, each guard evaluated on its own;
  the result is empty exactly when no guard holds.
\<close>

theorem generate_recommendations_rule_table:
  "generate_recommendations gre toefl rating sop lor cgpa research probability
     = recommend_spec gre toefl sop lor cgpa research probability
   \<and> (generate_recommendations gre toefl rating sop lor cgpa research probability = []
        \<longleftrightarrow> 8.0 \<le> cgpa \<and> 320 \<le> gre \<and> 100 \<le> toefl \<and> 4.0 \<le> sop \<and> 4.0 \<le> lor
              \<and> research \<noteq> 0 \<and> 60 \<le> probability)"
  by (simp add: generate_recommendations_def recommend_spec_def rule_table_def append_if_def)

text \<open>
  C3, as amended. Whenever the scaler's \<^verbatim>\<open>transform\<close> raises on the array that
  \<^verbatim>\<open>predict_admission\<close> builds, \<^verbatim>\<open>predict_admission\<close> raises that same exception, and
  a run with these artifacts loaded stops with it and yields no percentage. Whenever the
  loaded scaler validates the width of its input and was fitted on a number of features
  other than 7, \<^verbatim>\<open>predict_admission\<close> raises and the run yields no percentage.
\<close>

theorem scaler_failure_stops_prediction:
  "(\<forall>data e. data_array gre toefl rating sop lor cgpa research = Inr data
        \<and> transform scaler data = Inl e \<longrightarrow>
        predict_admission gre toefl rating sop lor cgpa research model scaler = Inl e
        \<and> run_app fs (Some (model, scaler)) gre toefl rating sop lor cgpa research
            = (Inl e, Some (model, scaler)))
   \<and> (validates_width scaler \<and> n_features_in scaler \<noteq> 7 \<longrightarrow>
        (\<exists>e. predict_admission gre toefl rating sop lor cgpa research model scaler = Inl e
           \<and> run_app fs (Some (model, scaler)) gre toefl rating sop lor cgpa research
               = (Inl e, Some (model, scaler))))"
proof -
  have run: "run_app fs (Some (model, scaler)) gre toefl rating sop lor cgpa research
      = (Inl e, Some (model, scaler))"
    if "predict_admission gre toefl rating sop lor cgpa research model scaler = Inl e" for e
    using that by (simp add: run_app_def cached_load_model_def)
  have pass: "predict_admission gre toefl rating sop lor cgpa research model scaler = Inl e"
    if "data_array gre toefl rating sop lor cgpa research = Inr data"
      and "transform scaler data = Inl e" for data e
    using that by (simp add: predict_admission_def)
  have width: "\<exists>e. predict_admission gre toefl rating sop lor cgpa research model scaler = Inl e"
    if v: "validates_width scaler" and n: "n_features_in scaler \<noteq> 7"
  proof (cases "data_array gre toefl rating sop lor cgpa research")
    case (Inl e)
    then show ?thesis by (simp add: predict_admission_def)
  next
    case (Inr data)
    then obtain row where row: "data = [row]" "length row = 7"
      using data_array_row by blast
    with n have "length row \<noteq> n_features_in scaler" by simp
    with v obtain e where "transform scaler [row] = Inl e"
      unfolding validates_width_def by blast
    with Inr row pass show ?thesis by blast
  qed
  from run pass width show ?thesis by blast
qed

theorem scaler_failure_stops_prediction_witness:
  "validates_width (checking_scaler 5) \<and> n_features_in (checking_scaler 5) \<noteq> 7
   \<and> data_array 320 110 3 4 4 8.5 1 = Inr [[320, 110, 3, 4, 4, 8.5, 1]]
   \<and> transform (checking_scaler 5) [[320, 110, 3, 4, 4, 8.5, 1]] = Inl (Raised ''ValueError'')
   \<and> predict_admission 320 110 3 4 4 8.5 1 averaging_model (checking_scaler 5)
       = Inl (Raised ''ValueError'')"
proof -
  have v: "validates_width (checking_scaler 5)"
    by (simp add: validates_width_def checking_scaler_def)
  have n: "n_features_in (checking_scaler 5) \<noteq> 7"
    by (simp add: checking_scaler_def)
  have t: "transform (checking_scaler 5) [[320, 110, 3, 4, 4, 8.5, 1]]
      = Inl (Raised ''ValueError'')"
    by (simp add: checking_scaler_def)
  from scaler_failure_stops_prediction
      [of 320 110 3 4 4 "8.5" 1 "checking_scaler 5" averaging_model]
    data_array_sample t
  have "predict_admission 320 110 3 4 4 8.5 1 averaging_model (checking_scaler 5)
      = Inl (Raised ''ValueError'')"
    by blast
  with v n t data_array_sample show ?thesis by blast
qed

theorem scaler_shape_mismatch_counterexample:
  "n_features_in dividing_scaler \<noteq> 7
   \<and> predict_admission 320 110 3 4 4 8.5 1 averaging_model dividing_scaler = Inr (901 / 14)"
  unfolding predict_admission_def data_array_sample
  by (simp add: averaging_model_def dividing_scaler_def)



text \<open>
  C5. For every profile whose integers convert to floats, the array handed to the
  scaler's \<^verbatim>\<open>transform\<close> is the one row of exactly 7 components GRE, TOEFL, rating, SOP,
  LOR, CGPA, research, in this order, the integers converted: a scaler that reports
  whether its argument was a given array reports so for this array and for no other, and
  two scalers that agree on this array give the same prediction. An integer of magnitude
  below 2 to the power 53 is converted without change.
\<close>

theorem feature_row_handed_to_scaler:
  "(float64_of_int gre = Inr g \<and> float64_of_int toefl = Inr t
      \<and> float64_of_int rating = Inr r \<and> float64_of_int research = Inr s \<longrightarrow>
      (predict_admission gre toefl rating sop lor cgpa research model (probe_scaler d)
           = Inl (Raised ''probe hit'')
         \<longleftrightarrow> d = [[g, t, r, sop, lor, cgpa, s]])
      \<and> (transform scaler [[g, t, r, sop, lor, cgpa, s]]
           = transform scaler' [[g, t, r, sop, lor, cgpa, s]] \<longrightarrow>
         predict_admission gre toefl rating sop lor cgpa research model scaler
           = predict_admission gre toefl rating sop lor cgpa research model scaler'))
   \<and> (\<bar>gre\<bar> < 2 ^ 53 \<longrightarrow> float64_of_int gre = Inr (real_of_int gre))
   \<and> (\<bar>toefl\<bar> < 2 ^ 53 \<longrightarrow> float64_of_int toefl = Inr (real_of_int toefl))
   \<and> (\<bar>rating\<bar> < 2 ^ 53 \<longrightarrow> float64_of_int rating = Inr (real_of_int rating))
   \<and> (\<bar>research\<bar> < 2 ^ 53 \<longrightarrow> float64_of_int research = Inr (real_of_int research))"
proof -
  have probe: "predict_admission gre toefl rating sop lor cgpa research model (probe_scaler d)
        = Inl (Raised ''probe hit'')
      \<longleftrightarrow> d = [[g, t, r, sop, lor, cgpa, s]]"
    if "float64_of_int gre = Inr g" "float64_of_int toefl = Inr t"
      "float64_of_int rating = Inr r" "float64_of_int research = Inr s"
    using that by (auto simp add: predict_admission_def data_array_def probe_scaler_def)
  have agree: "predict_admission gre toefl rating sop lor cgpa research model scaler
        = predict_admission gre toefl rating sop lor cgpa research model scaler'"
    if "float64_of_int gre = Inr g" "float64_of_int toefl = Inr t"
      "float64_of_int rating = Inr r" "float64_of_int research = Inr s"
      "transform scaler [[g, t, r, sop, lor, cgpa, s]]
        = transform scaler' [[g, t, r, sop, lor, cgpa, s]]"
    using that by (simp add: predict_admission_def data_array_def)
  from probe agree float64_of_int_exact show ?thesis by blast
qed

theorem feature_row_handed_to_scaler_witness:
  "float64_of_int 320 = Inr 320 \<and> float64_of_int 110 = Inr 110 \<and> float64_of_int 3 = Inr 3
   \<and> float64_of_int 1 = Inr 1
   \<and> predict_admission 320 110 3 4 4 8.5 1 averaging_model
        (probe_scaler [[320, 110, 3, 4, 4, 8.5, 1]]) = Inl (Raised ''probe hit'')
   \<and> predict_admission 320 110 3 4 4 8.5 1 averaging_model
        (probe_scaler [[110, 320, 3, 4, 4, 8.5, 1]]) \<noteq> Inl (Raised ''probe hit'')
   \<and> transform (checking_scaler 7) [[320, 110, 3, 4, 4, 8.5, 1]]
       = transform dividing_scaler [[320, 110, 3, 4, 4, 8.5, 1]]
   \<and> predict_admission 320 110 3 4 4 8.5 1 averaging_model (checking_scaler 7)
       = predict_admission 320 110 3 4 4 8.5 1 averaging_model dividing_scaler"
proof -
  have b: "\<bar>320::int\<bar> < 2 ^ 53" "\<bar>110::int\<bar> < 2 ^ 53" "\<bar>3::int\<bar> < 2 ^ 53" "\<bar>1::int\<bar> < 2 ^ 53"
    by simp_all
  note inst = feature_row_handed_to_scaler [of 320 320 110 110 3 3 1 1 4 4 "8.5" averaging_model]
  from inst [of "[[320, 110, 3, 4, 4, 8.5, 1]]" "checking_scaler 7" dividing_scaler] b
  have c: "float64_of_int 320 = Inr 320 \<and> float64_of_int 110 = Inr 110
      \<and> float64_of_int 3 = Inr 3 \<and> float64_of_int 1 = Inr 1"
    by simp
  have t: "transform (checking_scaler 7) [[320, 110, 3, 4, 4, 8.5, 1]]
       = transform dividing_scaler [[320, 110, 3, 4, 4, 8.5, 1]]"
    by (simp add: checking_scaler_def dividing_scaler_def)
  from inst [of "[[320, 110, 3, 4, 4, 8.5, 1]]" "checking_scaler 7" dividing_scaler] c t
  have hit: "predict_admission 320 110 3 4 4 8.5 1 averaging_model
        (probe_scaler [[320, 110, 3, 4, 4, 8.5, 1]]) = Inl (Raised ''probe hit'')"
    and same: "predict_admission 320 110 3 4 4 8.5 1 averaging_model (checking_scaler 7)
       = predict_admission 320 110 3 4 4 8.5 1 averaging_model dividing_scaler"
    by blast+
  have ne: "[[110, 320, 3, 4, 4, 8.5, 1]] \<noteq> [[320, 110, 3, 4, 4, 8.5, 1::real]]"
    by simp
  from inst [of "[[110, 320, 3, 4, 4, 8.5, 1]]" "checking_scaler 7" dividing_scaler] c ne
  have miss: "predict_admission 320 110 3 4 4 8.5 1 averaging_model
        (probe_scaler [[110, 320, 3, 4, 4, 8.5, 1]]) \<noteq> Inl (Raised ''probe hit'')"
    by blast
  from c hit miss t same show ?thesis by blast
qed






text \<open>
  C9. The recommendations do not depend on the university rating: two profiles that
  differ only in the rating get the same list for the same percentage.
\<close>

theorem generate_recommendations_ignores_rating:
  "generate_recommendations gre toefl rating sop lor cgpa research probability
     = generate_recommendations gre toefl rating' sop lor cgpa research probability"
  by (simp add: generate_recommendations_def)

text \<open>
  C10. For rating, SOP and LOR within 1 and 5 the radar values of rating, SOP and LOR are
  the input divided by 5 and multiplied by 100, not rescaled from the minimum 1; they lie
  within 20 and 100 and are never 0.
\<close>

theorem radar_values_rating_sop_lor:
  assumes "1 \<le> rating" "rating \<le> 5" "1 \<le> sop" "sop \<le> 5" "1 \<le> lor" "lor \<le> 5"
  shows "radar_values gre toefl rating sop lor cgpa research ! 2 = real_of_int rating / 5 * 100
    \<and> radar_values gre toefl rating sop lor cgpa research ! 3 = sop / 5 * 100
    \<and> radar_values gre toefl rating sop lor cgpa research ! 4 = lor / 5 * 100
    \<and> 20 \<le> radar_values gre toefl rating sop lor cgpa research ! 2
    \<and> radar_values gre toefl rating sop lor cgpa research ! 2 \<le> 100
    \<and> 20 \<le> radar_values gre toefl rating sop lor cgpa research ! 3
    \<and> radar_values gre toefl rating sop lor cgpa research ! 3 \<le> 100
    \<and> 20 \<le> radar_values gre toefl rating sop lor cgpa research ! 4
    \<and> radar_values gre toefl rating sop lor cgpa research ! 4 \<le> 100
    \<and> radar_values gre toefl rating sop lor cgpa research ! 2 \<noteq> 0
    \<and> radar_values gre toefl rating sop lor cgpa research ! 3 \<noteq> 0
    \<and> radar_values gre toefl rating sop lor cgpa research ! 4 \<noteq> 0"
  using assms by (simp add: radar_values_def numeral_eq_Suc)

theorem radar_values_rating_sop_lor_witness:
  "radar_values 260 0 1 1 1 6.8 0 ! 2 = 20
   \<and> radar_values 260 0 1 1 1 6.8 0 ! 3 = 20
   \<and> radar_values 260 0 1 1 1 6.8 0 ! 4 = 20"
  using radar_values_rating_sop_lor [of 1 1 1 260 0 "6.8" 0]
  by simp

end
